theory Spec2Isabelle
  imports Complex_Main "HOL-Library.AList"
begin

section \<open>Values and errors\<close>

text \<open>
  The attributes of a \<^verbatim>\<open>Soil\<close> hold either \<^verbatim>\<open>None\<close> or a number. Numbers are
  modelled as mathematical reals: the comparisons \<^verbatim>\<open>!=\<close> of the source are then exact
  comparisons of reals, and rounding of floating-point arithmetic is outside the model:
  where a setter compares a stored number with one it computes, the model compares the
  exact values. The concrete objects below use numbers on which floating-point
  arithmetic is exact, and the general theorems on the setters are about paths on which
  nothing is computed or on which the outcome does not depend on the comparison.
  Exceptions are values of \<open>error\<close>. The source raises \<^verbatim>\<open>ModelError\<close> with a message; the
  other errors are raised by the Python run time (arithmetic on \<^verbatim>\<open>None\<close>, division by
  zero, a missing attribute, a missing dictionary key).
\<close>

datatype error =
    ModelError string
  | TypeError
  | ZeroDivisionError
  | AttributeError string
  | KeyError

type_synonym val = "real option"

section \<open>Soil (models/soils.py)\<close>

text \<open>
  One field per private slot of the class (\<^verbatim>\<open>_phi\<close>, \<^verbatim>\<open>_e_curr\<close>, ...), named after the
  property that reads it; the three critical-state class attributes, whose class default
  is \<^verbatim>\<open>0.0\<close>; and \<open>attrs\<close>, the instance dictionary for every other attribute that has
  been assigned to the object (\<^verbatim>\<open>g_mod\<close>, \<^verbatim>\<open>poissons_ratio\<close>, \<^verbatim>\<open>id\<close>, ...: the class
  declares no property and no default for these names).
\<close>

record Soil =
  phi :: val
  cohesion :: val
  unit_dry_weight :: val
  e_min :: val
  e_max :: val
  e_curr :: val
  relative_density :: val
  specific_gravity :: val
  unit_sat_weight :: val
  saturation :: val
  e_cr0 :: val
  p_cr0 :: val
  lamb_crl :: val
  attrs :: "(string \<times> val) list"

definition Soil_init :: Soil where
  "Soil_init =
     \<lparr> phi = None, cohesion = None, unit_dry_weight = None, e_min = None, e_max = None,
       e_curr = None, relative_density = None, specific_gravity = None,
       unit_sat_weight = None, saturation = None,
       e_cr0 = Some 0, p_cr0 = Some 0, lamb_crl = Some 0, attrs = [] \<rparr>"

definition pw :: real where
  "pw = 1000"

definition inputs :: "string list" where
  "inputs =
     [''g_mod'', ''phi'', ''relative_density'', ''unit_dry_weight'', ''unit_sat_weight'',
      ''cohesion'', ''poissons_ratio'', ''e_min'', ''e_max'', ''e_cr0'', ''p_cr0'',
      ''lamb_crl'']"

text \<open>
  A setter mutates the object and may raise after it has mutated it, so a setter returns
  the exception, if any, together with the state it leaves behind: \<open>(None, s')\<close> is a
  normal return, \<open>(Some e, s')\<close> is the exception \<open>e\<close> raised with the object in state
  \<open>s'\<close>.
\<close>

type_synonym outcome = "error option \<times> Soil"

definition unit_weight :: "Soil \<Rightarrow> val" where
  "unit_weight s =
     (case saturation s of
        Some x \<Rightarrow> (if x \<noteq> 0 then unit_sat_weight s else unit_dry_weight s)
      | None \<Rightarrow> unit_dry_weight s)"

definition phi_setter :: "val \<Rightarrow> Soil \<Rightarrow> outcome" where
  "phi_setter v s = (None, s\<lparr>phi := v\<rparr>)"

definition cohesion_setter :: "val \<Rightarrow> Soil \<Rightarrow> outcome" where
  "cohesion_setter v s = (None, s\<lparr>cohesion := v\<rparr>)"

definition e_min_setter :: "val \<Rightarrow> Soil \<Rightarrow> outcome" where
  "e_min_setter v s = (None, s\<lparr>e_min := v\<rparr>)"

definition e_max_setter :: "val \<Rightarrow> Soil \<Rightarrow> outcome" where
  "e_max_setter v s = (None, s\<lparr>e_max := v\<rparr>)"

definition saturation_setter :: "val \<Rightarrow> Soil \<Rightarrow> outcome" where
  "saturation_setter v s = (None, s\<lparr>saturation := v\<rparr>)"

text \<open>
  \<^verbatim>\<open>e_curr.setter\<close>: the \<^verbatim>\<open>try\<close> block raises \<^verbatim>\<open>TypeError\<close> exactly when one of
  \<^verbatim>\<open>e_max\<close>, \<^verbatim>\<open>relative_density\<close>, \<^verbatim>\<open>e_min\<close> is \<^verbatim>\<open>None\<close>; only the handler stores.
\<close>

definition e_curr_setter :: "val \<Rightarrow> Soil \<Rightarrow> outcome" where
  "e_curr_setter v s =
     (case e_max s of
        None \<Rightarrow> (None, s\<lparr>e_curr := v\<rparr>)
      | Some emax \<Rightarrow>
          (case relative_density s of
             None \<Rightarrow> (None, s\<lparr>e_curr := v\<rparr>)
           | Some rd \<Rightarrow>
               (case e_min s of
                  None \<Rightarrow> (None, s\<lparr>e_curr := v\<rparr>)
                | Some emin \<Rightarrow>
                    (if Some (emax - rd * (emax - emin)) \<noteq> v
                     then (Some (ModelError ''New void ratio inconsistent with relative_density''), s)
                     else (None, s)))))"

text \<open>
  \<^verbatim>\<open>unit_dry_weight.setter\<close>: the private slot is assigned first, the check comes after.
\<close>

definition unit_dry_weight_setter :: "val \<Rightarrow> bool \<Rightarrow> Soil \<Rightarrow> outcome" where
  "unit_dry_weight_setter v override s =
     (let s1 = s\<lparr>unit_dry_weight := v\<rparr> in
      case e_curr s1 of
        Some e \<Rightarrow>
          (case v of
             None \<Rightarrow> (Some TypeError, s1)
           | Some udw \<Rightarrow>
               (let sg = (1 + e) * udw / pw in
                if specific_gravity s1 \<noteq> None \<and> \<not> override then
                  (if specific_gravity s1 \<noteq> Some sg
                   then (Some (ModelError
                     ''New unit dry weight is inconsistent with specific gravity and void ratio''), s1)
                   else (None, s1))
                else (None, s1\<lparr>specific_gravity := Some sg\<rparr>)))
      | None \<Rightarrow>
          (case specific_gravity s1 of
             None \<Rightarrow> (None, s1)
           | Some g \<Rightarrow>
               (case v of
                  None \<Rightarrow> (Some TypeError, s1)
                | Some udw \<Rightarrow>
                    (if udw = 0 then (Some ZeroDivisionError, s1)
                     else e_curr_setter (Some (g * pw / udw - 1)) s1))))"

text \<open>
  \<^verbatim>\<open>specific_gravity.setter\<close>: again the slot is assigned before the check; the last
  branch goes through the setter of \<^verbatim>\<open>unit_dry_weight\<close>.
\<close>

definition specific_gravity_setter :: "val \<Rightarrow> bool \<Rightarrow> Soil \<Rightarrow> outcome" where
  "specific_gravity_setter v override s =
     (let s1 = s\<lparr>specific_gravity := v\<rparr> in
      case e_curr s1 of
        None \<Rightarrow> (None, s1)
      | Some e \<Rightarrow>
          (case v of
             None \<Rightarrow> (Some TypeError, s1)
           | Some g \<Rightarrow>
               (if 1 + e = 0 then (Some ZeroDivisionError, s1)
                else
                  (let udw = g * pw / (1 + e) in
                   if unit_dry_weight s1 \<noteq> None \<and> \<not> override then
                     (if unit_dry_weight s1 \<noteq> Some udw
                      then (Some (ModelError
                        ''specific gravity is inconsistent with set unit_dry_weight and void_ratio''), s1)
                      else (None, s1))
                   else unit_dry_weight_setter (Some udw) False s1))))"

text \<open>
  \<^verbatim>\<open>relative_density.setter\<close>: the quotient raises \<^verbatim>\<open>TypeError\<close> when an operand is
  \<^verbatim>\<open>None\<close> (handled: store) and \<^verbatim>\<open>ZeroDivisionError\<close> when \<^verbatim>\<open>e_max == e_min\<close>
  (not handled).
\<close>

definition relative_density_setter :: "val \<Rightarrow> bool \<Rightarrow> Soil \<Rightarrow> outcome" where
  "relative_density_setter v override s =
     (case e_max s of
        None \<Rightarrow> (None, s\<lparr>relative_density := v\<rparr>)
      | Some emax \<Rightarrow>
          (case e_curr s of
             None \<Rightarrow> (None, s\<lparr>relative_density := v\<rparr>)
           | Some e \<Rightarrow>
               (case e_min s of
                  None \<Rightarrow> (None, s\<lparr>relative_density := v\<rparr>)
                | Some emin \<Rightarrow>
                    (if emax - emin = 0 then (Some ZeroDivisionError, s)
                     else if Some ((emax - e) / (emax - emin)) \<noteq> v \<and> \<not> override
                     then (Some (ModelError ''New relative_density is inconsistent with e_curr''), s)
                     else (None, s\<lparr>relative_density := v\<rparr>)))))"

text \<open>
  The private properties \<^verbatim>\<open>_unit_void_volume\<close> and \<^verbatim>\<open>_unit_moisture_weight\<close>. Python
  evaluates the operands of a product left to right, so a failure inside
  \<^verbatim>\<open>_unit_void_volume\<close> comes before the \<^verbatim>\<open>TypeError\<close> of multiplying \<^verbatim>\<open>None\<close>.
\<close>

definition unit_void_volume :: "Soil \<Rightarrow> error + real" where
  "unit_void_volume s =
     (case e_curr s of
        None \<Rightarrow> Inl TypeError
      | Some e \<Rightarrow> (if 1 + e = 0 then Inl ZeroDivisionError else Inr (e / (1 + e))))"

definition unit_moisture_weight :: "Soil \<Rightarrow> error + real" where
  "unit_moisture_weight s =
     (case unit_void_volume s of
        Inl err \<Rightarrow> Inl err
      | Inr uvv \<Rightarrow>
          (case saturation s of
             None \<Rightarrow> Inl TypeError
           | Some sat \<Rightarrow> Inr (sat * uvv * pw)))"

text \<open>
  \<^verbatim>\<open>unit_sat_weight.setter\<close>, in three parts: the \<^verbatim>\<open>try\<close> block's sum, the tail of the
  handler (from \<^verbatim>\<open>if self.saturation is not None\<close>), and the setter.
\<close>

definition unit_sat_weight_try :: "Soil \<Rightarrow> error + real" where
  "unit_sat_weight_try s =
     (case unit_moisture_weight s of
        Inl err \<Rightarrow> Inl err
      | Inr umw \<Rightarrow>
          (case unit_dry_weight s of
             None \<Rightarrow> Inl TypeError
           | Some udw \<Rightarrow> Inr (umw + udw)))"

definition unit_sat_weight_propagate :: "real \<Rightarrow> real \<Rightarrow> Soil \<Rightarrow> outcome" where
  "unit_sat_weight_propagate usw umw s =
     (case saturation s of
        None \<Rightarrow> (None, s)
      | Some sat \<Rightarrow>
          (if sat = 0 then (Some ZeroDivisionError, s)
           else
             (let unit_void_vol = (umw / pw) / sat in
              case specific_gravity s of
                Some g \<Rightarrow> unit_dry_weight_setter (Some ((1 - unit_void_vol) * g * pw)) False s
              | None \<Rightarrow>
                  (case e_curr s of
                     Some e \<Rightarrow> unit_dry_weight_setter (Some (usw - umw)) False s
                   | None \<Rightarrow> (None, s)))))"

definition unit_sat_weight_setter :: "val \<Rightarrow> Soil \<Rightarrow> outcome" where
  "unit_sat_weight_setter v s =
     (case unit_sat_weight_try s of
        Inr usw \<Rightarrow>
          (if Some usw \<noteq> v
           then (Some (ModelError ''new unit_sat_weight is inconsistent with other soil parameters''), s)
           else (None, s))
      | Inl err \<Rightarrow>
          (if err \<noteq> TypeError then (Some err, s)
           else
             (let s1 = s\<lparr>unit_sat_weight := v\<rparr> in
              case unit_dry_weight s1 of
                None \<Rightarrow> (None, s1)
              | Some udw \<Rightarrow>
                  (case v of
                     None \<Rightarrow> (Some TypeError, s1)
                   | Some usw \<Rightarrow>
                       (let umw = usw - udw in
                        case e_curr s1 of
                          None \<Rightarrow> unit_sat_weight_propagate usw umw s1
                        | Some e \<Rightarrow>
                            (case unit_void_volume s1 of
                               Inl err' \<Rightarrow> (Some err', s1)
                             | Inr uvv \<Rightarrow>
                                 (if uvv = 0 then (Some ZeroDivisionError, s1)
                                  else unit_sat_weight_propagate usw umw
                                         (s1\<lparr>saturation := Some ((umw / pw) / uvv)\<rparr>))))))))"

section \<open>Attribute access by name\<close>

text \<open>
  \<^verbatim>\<open>setattr(obj, name, value)\<close> on a Soil: a name with a property setter runs the setter
  (always with \<^verbatim>\<open>override=False\<close>); the name of a private slot or of a critical-state
  class attribute stores the value; the name of a property without setter raises
  \<^verbatim>\<open>AttributeError\<close>; any other name becomes an entry of the instance dictionary.
  Class members whose values are not numbers (\<^verbatim>\<open>inputs\<close>, \<^verbatim>\<open>type\<close>, \<^verbatim>\<open>skip_list\<close>, the
  methods) and the constant \<^verbatim>\<open>_pw\<close> are outside this model of the name space.
\<close>

definition read_only :: "string list" where
  "read_only =
     [''unit_weight'', ''porosity'', ''moisture_content'', ''phi_r'', ''k_0'', ''n1_60'',
      ''attributes'', ''ancestor_types'', ''_unit_void_volume'', ''_unit_solid_volume'',
      ''_unit_moisture_weight'']"

text \<open>
  The names this model of the name space answers for: not a class member whose value is
  not a number or that the formulas read as a constant, not a computed property, and not
  a name that starts with two underscores (\<^verbatim>\<open>__class__\<close>, \<^verbatim>\<open>__dict__\<close>, ...). Statements
  about names that are not attributes of the object are made for these names only.
\<close>

definition unmodelled_members :: "string list" where
  "unmodelled_members =
     [''inputs'', ''type'', ''skip_list'', ''_pw'', ''_counter'', ''set'', ''deepcopy'',
      ''to_dict'', ''add_from_same'', ''e_critical'']"

definition modelled_name :: "string \<Rightarrow> bool" where
  "modelled_name name =
     (name \<notin> set unmodelled_members \<and> name \<notin> set read_only \<and> take 2 name \<noteq> ''__'')"

definition setattr :: "Soil \<Rightarrow> string \<Rightarrow> val \<Rightarrow> outcome" where
  "setattr s name v =
     (if name = ''phi'' then phi_setter v s
      else if name = ''cohesion'' then cohesion_setter v s
      else if name = ''unit_dry_weight'' then unit_dry_weight_setter v False s
      else if name = ''e_curr'' then e_curr_setter v s
      else if name = ''specific_gravity'' then specific_gravity_setter v False s
      else if name = ''saturation'' then saturation_setter v s
      else if name = ''unit_sat_weight'' then unit_sat_weight_setter v s
      else if name = ''e_min'' then e_min_setter v s
      else if name = ''e_max'' then e_max_setter v s
      else if name = ''relative_density'' then relative_density_setter v False s
      else if name = ''e_cr0'' then (None, s\<lparr>e_cr0 := v\<rparr>)
      else if name = ''p_cr0'' then (None, s\<lparr>p_cr0 := v\<rparr>)
      else if name = ''lamb_crl'' then (None, s\<lparr>lamb_crl := v\<rparr>)
      else if name = ''_phi'' then (None, s\<lparr>phi := v\<rparr>)
      else if name = ''_cohesion'' then (None, s\<lparr>cohesion := v\<rparr>)
      else if name = ''_unit_dry_weight'' then (None, s\<lparr>unit_dry_weight := v\<rparr>)
      else if name = ''_e_min'' then (None, s\<lparr>e_min := v\<rparr>)
      else if name = ''_e_max'' then (None, s\<lparr>e_max := v\<rparr>)
      else if name = ''_e_curr'' then (None, s\<lparr>e_curr := v\<rparr>)
      else if name = ''_relative_density'' then (None, s\<lparr>relative_density := v\<rparr>)
      else if name = ''_specific_gravity'' then (None, s\<lparr>specific_gravity := v\<rparr>)
      else if name = ''_unit_sat_weight'' then (None, s\<lparr>unit_sat_weight := v\<rparr>)
      else if name = ''_saturation'' then (None, s\<lparr>saturation := v\<rparr>)
      else if name \<in> set read_only then (Some (AttributeError name), s)
      else (None, s\<lparr>attrs := AList.update name v (attrs s)\<rparr>))"

text \<open>
  \<^verbatim>\<open>getattr(obj, name)\<close> for the stored attributes and \<^verbatim>\<open>unit_weight\<close>: a getter returns
  its slot; a name the class does not define is looked up in the instance dictionary and
  raises \<^verbatim>\<open>AttributeError\<close> when it was never assigned. The slots \<^verbatim>\<open>_g_mod\<close> and
  \<^verbatim>\<open>_poissons_ratio\<close> have the class default \<^verbatim>\<open>None\<close>; the names \<^verbatim>\<open>g_mod\<close> and
  \<^verbatim>\<open>poissons_ratio\<close> have no default. The computed properties other than
  \<^verbatim>\<open>unit_weight\<close> are read by name nowhere in the code modelled here and are not covered.
\<close>

definition getattr :: "Soil \<Rightarrow> string \<Rightarrow> error + val" where
  "getattr s name =
     (if name = ''phi'' \<or> name = ''_phi'' then Inr (phi s)
      else if name = ''cohesion'' \<or> name = ''_cohesion'' then Inr (cohesion s)
      else if name = ''unit_dry_weight'' \<or> name = ''_unit_dry_weight'' then Inr (unit_dry_weight s)
      else if name = ''e_curr'' \<or> name = ''_e_curr'' then Inr (e_curr s)
      else if name = ''specific_gravity'' \<or> name = ''_specific_gravity'' then Inr (specific_gravity s)
      else if name = ''saturation'' \<or> name = ''_saturation'' then Inr (saturation s)
      else if name = ''unit_sat_weight'' \<or> name = ''_unit_sat_weight'' then Inr (unit_sat_weight s)
      else if name = ''e_min'' \<or> name = ''_e_min'' then Inr (e_min s)
      else if name = ''e_max'' \<or> name = ''_e_max'' then Inr (e_max s)
      else if name = ''relative_density'' \<or> name = ''_relative_density'' then Inr (relative_density s)
      else if name = ''e_cr0'' then Inr (e_cr0 s)
      else if name = ''p_cr0'' then Inr (p_cr0 s)
      else if name = ''lamb_crl'' then Inr (lamb_crl s)
      else if name = ''unit_weight'' then Inr (unit_weight s)
      else
        (case map_of (attrs s) name of
           Some v \<Rightarrow> Inr v
         | None \<Rightarrow>
             (if name = ''_g_mod'' \<or> name = ''_poissons_ratio'' then Inr None
              else Inl (AttributeError name))))"

text \<open>
  \<^verbatim>\<open>hasattr(obj, name)\<close>, as \<^verbatim>\<open>PhysicalObject.set\<close> uses it: on the names of \<^verbatim>\<open>inputs\<close>,
  where it says whether reading the attribute succeeds.
\<close>

definition hasattr :: "Soil \<Rightarrow> string \<Rightarrow> bool" where
  "hasattr s name = (case getattr s name of Inl err \<Rightarrow> False | Inr v \<Rightarrow> True)"

section \<open>Bulk load and serialization (abstract\_models.py, files.py)\<close>

text \<open>
  A Python dictionary is an association list in iteration order, one entry per key.
  \<^verbatim>\<open>add_to_obj\<close> walks the dictionary's entries; \<^verbatim>\<open>PhysicalObject.set\<close> walks
  \<^verbatim>\<open>self.inputs\<close> and subscripts the dictionary, which raises \<^verbatim>\<open>KeyError\<close> on a missing
  key. Both stop at the first exception.
\<close>

fun add_to_obj :: "Soil \<Rightarrow> (string \<times> val) list \<Rightarrow> string list \<Rightarrow> outcome" where
  "add_to_obj obj [] exceptions = (None, obj)"
| "add_to_obj obj ((item, v) # rest) exceptions =
     (if item \<in> set exceptions then add_to_obj obj rest exceptions
      else
        (case v of
           None \<Rightarrow> add_to_obj obj rest exceptions
         | Some x \<Rightarrow>
             (case setattr obj item (Some x) of
                (None, obj') \<Rightarrow> add_to_obj obj' rest exceptions
              | (Some err, obj') \<Rightarrow> (Some err, obj'))))"

fun set_loop :: "Soil \<Rightarrow> (string \<times> val) list \<Rightarrow> string list \<Rightarrow> outcome" where
  "set_loop s vals [] = (None, s)"
| "set_loop s vals (item # items) =
     (if hasattr s item then
        (case map_of vals item of
           None \<Rightarrow> (Some KeyError, s)
         | Some v \<Rightarrow>
             (case setattr s item v of
                (None, s') \<Rightarrow> set_loop s' vals items
              | (Some err, s') \<Rightarrow> (Some err, s')))
      else set_loop s vals items)"

definition set_obj :: "Soil \<Rightarrow> (string \<times> val) list \<Rightarrow> outcome" where
  "set_obj s vals = set_loop s vals inputs"

definition skip_list :: "string list" where
  "skip_list = []"

text \<open>
  Modelled from the spec: \<^verbatim>\<open>sfsimodels.functions.collect_serial_value\<close> is not among the
  sources. The spec says that nested values are flattened to serializable primitives; a
  number and \<^verbatim>\<open>None\<close> are primitives already and are returned as they are.
\<close>

definition collect_serial_value :: "val \<Rightarrow> val" where
  "collect_serial_value v = v"

fun to_dict_loop ::
  "Soil \<Rightarrow> bool \<Rightarrow> string list \<Rightarrow> (string \<times> val) list \<Rightarrow> error + (string \<times> val) list" where
  "to_dict_loop s export_none [] outputs = Inr outputs"
| "to_dict_loop s export_none (item # items) outputs =
     (if item \<in> set skip_list then to_dict_loop s export_none items outputs
      else
        (case getattr s item of
           Inl err \<Rightarrow> Inl err
         | Inr v \<Rightarrow>
             (if \<not> export_none \<and> v = None then to_dict_loop s export_none items outputs
              else to_dict_loop s export_none items
                     (AList.update item (collect_serial_value v) outputs))))"

definition to_dict :: "Soil \<Rightarrow> string list \<Rightarrow> bool \<Rightarrow> error + (string \<times> val) list" where
  "to_dict s extra export_none = to_dict_loop s export_none (inputs @ extra) []"

text \<open>
  \<^verbatim>\<open>Output.add_to_dict\<close> for a Soil: the \<^verbatim>\<open>models["soils"]\<close> dictionary maps an id to the
  Soil's serialized form. Reading \<^verbatim>\<open>an_object.id\<close> is an ordinary attribute read.
\<close>

record Output =
  soils :: "(real \<times> (string \<times> val) list) list"

definition Output_init :: Output where
  "Output_init = \<lparr> soils = [] \<rparr>"

definition add_to_dict :: "Output \<Rightarrow> Soil \<Rightarrow> error + Output" where
  "add_to_dict out an_object =
     (case getattr an_object ''id'' of
        Inl err \<Rightarrow> Inl err
      | Inr None \<Rightarrow> Inl (ModelError ''id must be set on object before adding to output.'')
      | Inr (Some i) \<Rightarrow>
          (case to_dict an_object [] True of
             Inl err \<Rightarrow> Inl err
           | Inr d \<Rightarrow> Inr (out\<lparr>soils := AList.update i d (soils out)\<rparr>)))"

section \<open>SoilProfile (models/soils.py)\<close>

text \<open>
  \<^verbatim>\<open>_layers\<close> is an \<^verbatim>\<open>OrderedDict\<close> from depth to Soil: an association list in iteration
  order. Assigning to a key that is present keeps its position, a new key goes to the
  end, which is what \<open>AList.update\<close> does; \<^verbatim>\<open>sorted\<close> is stable, as \<open>sort_key\<close> is. The
  class default of \<^verbatim>\<open>gwl\<close> is \<^verbatim>\<open>None\<close>, that of \<^verbatim>\<open>unit_weight_water\<close> the number 9800.
  A layer holds the state of its Soil at the time of the query.
\<close>

record SoilProfile =
  gwl :: val
  unit_weight_water :: real
  layers :: "(real \<times> Soil) list"

definition SoilProfile_init :: SoilProfile where
  "SoilProfile_init = \<lparr> gwl = None, unit_weight_water = 9800, layers = [(0, Soil_init)] \<rparr>"

definition depths :: "SoilProfile \<Rightarrow> real list" where
  "depths p = map fst (layers p)"

definition sort_layers :: "SoilProfile \<Rightarrow> SoilProfile" where
  "sort_layers p = p\<lparr>layers := sort_key fst (layers p)\<rparr>"

definition add_layer :: "real \<Rightarrow> Soil \<Rightarrow> SoilProfile \<Rightarrow> SoilProfile" where
  "add_layer depth soil p = sort_layers (p\<lparr>layers := AList.update depth soil (layers p)\<rparr>)"

definition remove_layer :: "real \<Rightarrow> SoilProfile \<Rightarrow> error + SoilProfile" where
  "remove_layer depth p =
     (case map_of (layers p) depth of
        None \<Rightarrow> Inl KeyError
      | Some soil \<Rightarrow> Inr (p\<lparr>layers := AList.delete depth (layers p)\<rparr>))"

text \<open>
  The loop of \<^verbatim>\<open>one_vertical_total_stress\<close> over the indices \<open>i\<close> of \<^verbatim>\<open>depths\<close>, as a
  recursion over the layers from index \<open>i\<close> on: \<^verbatim>\<open>depths[i + 1]\<close> is the depth of the next
  entry, and \<^verbatim>\<open>i < len(depths) - 1\<close> says that there is one. Multiplying by a
  \<^verbatim>\<open>unit_weight\<close> that is \<^verbatim>\<open>None\<close> raises \<^verbatim>\<open>TypeError\<close>.
\<close>

fun stress_loop :: "real \<Rightarrow> (real \<times> Soil) list \<Rightarrow> real \<Rightarrow> error + real" where
  "stress_loop z_c [] total_stress = Inr total_stress"
| "stress_loop z_c [(d, soil)] total_stress =
     (if z_c > d then
        (case unit_weight soil of
           None \<Rightarrow> Inl TypeError
         | Some w \<Rightarrow> Inr (total_stress + (z_c - d) * w))
      else Inr total_stress)"
| "stress_loop z_c ((d, soil) # (d', soil') # rest) total_stress =
     (if z_c > d then
        (if z_c > d' then
           (case unit_weight soil of
              None \<Rightarrow> Inl TypeError
            | Some w \<Rightarrow> stress_loop z_c ((d', soil') # rest) (total_stress + (d' - d) * w))
         else
           (case unit_weight soil of
              None \<Rightarrow> Inl TypeError
            | Some w \<Rightarrow> Inr (total_stress + (z_c - d) * w)))
      else stress_loop z_c ((d', soil') # rest) total_stress)"

definition one_vertical_total_stress :: "SoilProfile \<Rightarrow> real \<Rightarrow> error + real" where
  "one_vertical_total_stress p z_c = stress_loop z_c (layers p) 0"

text \<open>\<^verbatim>\<open>vertical_total_stress\<close> on a number; on a sequence of numbers it maps the same rule.\<close>

definition vertical_total_stress :: "SoilProfile \<Rightarrow> real \<Rightarrow> error + real" where
  "vertical_total_stress p z = one_vertical_total_stress p z"

fun vertical_total_stress_array :: "SoilProfile \<Rightarrow> real list \<Rightarrow> error + real list" where
  "vertical_total_stress_array p [] = Inr []"
| "vertical_total_stress_array p (z # zs) =
     (case one_vertical_total_stress p z of
        Inl err \<Rightarrow> Inl err
      | Inr sigma \<Rightarrow>
          (case vertical_total_stress_array p zs of
             Inl err \<Rightarrow> Inl err
           | Inr sigmas \<Rightarrow> Inr (sigma # sigmas)))"

definition vertical_effective_stress :: "SoilProfile \<Rightarrow> real \<Rightarrow> error + real" where
  "vertical_effective_stress p z_c =
     (case vertical_total_stress p z_c of
        Inl err \<Rightarrow> Inl err
      | Inr sigma_v_c \<Rightarrow>
          (case gwl p of
             None \<Rightarrow> Inl TypeError
           | Some g \<Rightarrow> Inr (sigma_v_c - max (z_c - g) 0 * unit_weight_water p)))"

text \<open>
  Sequences of structural mutations. A \<^verbatim>\<open>remove_layer\<close> that raises leaves the profile as
  it was, and the caller goes on with it.
\<close>

datatype layer_op = AddLayer real Soil | RemoveLayer real

fun apply_layer_op :: "SoilProfile \<Rightarrow> layer_op \<Rightarrow> SoilProfile" where
  "apply_layer_op p (AddLayer depth soil) = add_layer depth soil p"
| "apply_layer_op p (RemoveLayer depth) =
     (case remove_layer depth p of Inl err \<Rightarrow> p | Inr p' \<Rightarrow> p')"

definition layers_sorted :: "SoilProfile \<Rightarrow> bool" where
  "layers_sorted p = sorted_wrt (<) (depths p)"

section \<open>Example objects\<close>

text \<open>A Soil on which \<^verbatim>\<open>e_max = 1\<close>, \<^verbatim>\<open>e_min = 0.5\<close> and \<^verbatim>\<open>relative_density = 0.5\<close> were assigned.\<close>

definition soil_with_density :: Soil where
  "soil_with_density =
     snd (add_to_obj Soil_init
       [(''e_max'', Some 1), (''e_min'', Some (1/2)), (''relative_density'', Some (1/2))] [])"

text \<open>
  A Soil on which \<^verbatim>\<open>e_curr = 0.5\<close> and then \<^verbatim>\<open>unit_dry_weight = 1000\<close> were assigned; the
  second assignment derives \<^verbatim>\<open>specific_gravity = 1.5\<close>.
\<close>

definition soil_with_void_ratio :: Soil where
  "soil_with_void_ratio =
     snd (add_to_obj Soil_init [(''e_curr'', Some (1/2)), (''unit_dry_weight'', Some 1000)] [])"

text \<open>
  The scenario of the spec: layers at depths 0 and 5 whose Soils have
  \<^verbatim>\<open>unit_dry_weight\<close> 18000 and 19000 and no saturation, and \<^verbatim>\<open>gwl = 2\<close>.
\<close>

definition soil_a :: Soil where
  "soil_a = snd (setattr Soil_init ''unit_dry_weight'' (Some 18000))"

definition soil_b :: Soil where
  "soil_b = snd (setattr Soil_init ''unit_dry_weight'' (Some 19000))"

definition scenario_profile :: SoilProfile where
  "scenario_profile =
     (add_layer 5 soil_b (add_layer 0 soil_a SoilProfile_init))\<lparr>gwl := Some 2\<rparr>"

text \<open>
  A Soil with \<^verbatim>\<open>phi = 30\<close>, and the mapping that gives \<^verbatim>\<open>None\<close> to every name of
  \<^verbatim>\<open>inputs\<close>.
\<close>

definition soil_with_phi :: Soil where
  "soil_with_phi = snd (setattr Soil_init ''phi'' (Some 30))"

definition all_none :: "(string \<times> val) list" where
  "all_none = map (\<lambda>item. (item, None)) inputs"

text \<open>
  A profile with a layer above depth 0: \<^verbatim>\<open>add_layer(-1, soil_a)\<close>, then
  \<^verbatim>\<open>add_layer(0, soil_b)\<close> in place of the empty Soil of the new profile.
\<close>

definition profile_below_zero :: SoilProfile where
  "profile_below_zero = add_layer 0 soil_b (add_layer (-1) soil_a SoilProfile_init)"

text \<open>A layer's Soil has a \<^verbatim>\<open>unit_weight\<close> that is set and not negative.\<close>

definition weight_set_nonneg :: "Soil \<Rightarrow> bool" where
  "weight_set_nonneg s = (case unit_weight s of None \<Rightarrow> False | Some w \<Rightarrow> 0 \<le> w)"

section \<open>The void-ratio setter on a consistent value\<close>

lemma soil_with_density_eq:
  "soil_with_density =
     Soil_init\<lparr>e_min := Some (1/2), e_max := Some 1, relative_density := Some (1/2)\<rparr>"
  by (simp add: soil_with_density_def setattr_def e_max_setter_def e_min_setter_def
      relative_density_setter_def Soil_init_def)

text \<open>
  C1. On a Soil with \<^verbatim>\<open>e_max = 1\<close>, \<^verbatim>\<open>e_min = 0.5\<close>, \<^verbatim>\<open>relative_density = 0.5\<close> and
  \<^verbatim>\<open>e_curr\<close> not yet set, assigning the consistent value
  \<open>e_max - relative_density * (e_max - e_min) = 0.75\<close> to \<^verbatim>\<open>e_curr\<close> does not raise, but
  it does not store either: the object is unchanged and reading \<^verbatim>\<open>e_curr\<close> afterwards
  still gives \<^verbatim>\<open>None\<close>, not the assigned value. (The store is only in the
  \<^verbatim>\<open>except TypeError\<close> handler.)
\<close>

theorem e_curr_consistent_not_stored:
  "e_curr soil_with_density = None
   \<and> setattr soil_with_density ''e_curr'' (Some (3/4)) = (None, soil_with_density)
   \<and> getattr (snd (setattr soil_with_density ''e_curr'' (Some (3/4)))) ''e_curr'' = Inr None"
  by (simp add: soil_with_density_eq setattr_def getattr_def e_curr_setter_def Soil_init_def)




section \<open>The scenario profile\<close>

lemma unit_weight_soil_a: "unit_weight soil_a = Some 18000"
  by (simp add: soil_a_def setattr_def unit_dry_weight_setter_def Soil_init_def unit_weight_def)

lemma unit_weight_soil_b: "unit_weight soil_b = Some 19000"
  by (simp add: soil_b_def setattr_def unit_dry_weight_setter_def Soil_init_def unit_weight_def)

lemma scenario_layers: "layers scenario_profile = [(0, soil_a), (5, soil_b)]"
  by (simp add: scenario_profile_def add_layer_def sort_layers_def SoilProfile_init_def)

text \<open>
  C6. In the profile with layers at depths 0 and 5 whose Soils have \<^verbatim>\<open>unit_dry_weight\<close>
  18000 and 19000 (saturation unset) and \<^verbatim>\<open>gwl = 2\<close>,
  \<^verbatim>\<open>one_vertical_total_stress(3)\<close> is \<open>3 * 18000 = 54000\<close> and
  \<^verbatim>\<open>one_vertical_total_stress(7)\<close> is \<open>5 * 18000 + 2 * 19000\<close>.
\<close>

theorem scenario_total_stress:
  "one_vertical_total_stress scenario_profile 3 = Inr (3 * 18000)
   \<and> one_vertical_total_stress scenario_profile 3 = Inr 54000
   \<and> one_vertical_total_stress scenario_profile 7 = Inr (5 * 18000 + 2 * 19000)"
  by (simp add: one_vertical_total_stress_def scenario_layers unit_weight_soil_a unit_weight_soil_b)

section \<open>Effective stress\<close>

text \<open>
  C7. On a profile whose \<^verbatim>\<open>gwl\<close> is set to \<open>g\<close>: at a depth \<open>z \<le> g\<close>,
  \<^verbatim>\<open>vertical_effective_stress(z)\<close> is \<^verbatim>\<open>vertical_total_stress(z)\<close> (the same number, or
  the same exception when the total stress raises); at a depth \<open>z > g\<close> it is the total
  stress minus \<open>(z - g) * unit_weight_water\<close>.
\<close>

theorem effective_stress_water_table:
  "gwl p = Some g \<Longrightarrow>
     (z \<le> g \<longrightarrow> vertical_effective_stress p z = vertical_total_stress p z)
     \<and> (z > g \<longrightarrow> vertical_effective_stress p z =
           (case vertical_total_stress p z of
              Inl err \<Rightarrow> Inl err
            | Inr sigma \<Rightarrow> Inr (sigma - (z - g) * unit_weight_water p)))"
  by (simp add: vertical_effective_stress_def max_def split: sum.splits)

section \<open>Serialization of a Soil\<close>

text \<open>
  C2. \<^verbatim>\<open>to_dict\<close> on a freshly constructed Soil raises \<^verbatim>\<open>AttributeError\<close>: the first
  name of \<^verbatim>\<open>inputs\<close> is \<^verbatim>\<open>g_mod\<close>, and the class declares the slot \<^verbatim>\<open>_g_mod\<close> but no
  attribute \<^verbatim>\<open>g_mod\<close>. The round trip does not get as far as the bulk load.
\<close>

theorem to_dict_fresh_soil_raises:
  "to_dict Soil_init [] True = Inl (AttributeError ''g_mod'')"
  by (simp add: to_dict_def inputs_def skip_list_def getattr_def Soil_init_def)

text \<open>
  C9. \<^verbatim>\<open>Output.add_to_dict\<close> on a freshly constructed Soil raises \<^verbatim>\<open>AttributeError\<close>, not
  \<^verbatim>\<open>ModelError\<close>: neither \<^verbatim>\<open>Soil\<close> nor \<^verbatim>\<open>PhysicalObject\<close> declares \<^verbatim>\<open>id\<close>, so there is no
  attribute for the check \<^verbatim>\<open>an_object.id is None\<close> to read.
\<close>

theorem add_to_dict_fresh_soil_raises:
  "add_to_dict Output_init Soil_init = Inl (AttributeError ''id'')"
  by (simp add: add_to_dict_def getattr_def Soil_init_def)

section \<open>Setters that fail\<close>

lemma soil_with_void_ratio_eq:
  "soil_with_void_ratio =
     Soil_init\<lparr>unit_dry_weight := Some 1000, e_curr := Some (1/2), specific_gravity := Some (3/2)\<rparr>"
  by (simp add: soil_with_void_ratio_def setattr_def e_curr_setter_def unit_dry_weight_setter_def
      Soil_init_def pw_def Let_def)

text \<open>
  C10. On a Soil with \<^verbatim>\<open>e_curr = 0.5\<close>, \<^verbatim>\<open>unit_dry_weight = 1000\<close> and the derived
  \<^verbatim>\<open>specific_gravity = 1.5\<close>: assigning \<^verbatim>\<open>unit_dry_weight = 2000\<close> raises the
  \<^verbatim>\<open>ModelError\<close> of the consistency check and leaves \<^verbatim>\<open>unit_dry_weight\<close> at 2000;
  assigning \<^verbatim>\<open>specific_gravity = 2\<close> raises and leaves \<^verbatim>\<open>specific_gravity\<close> at 2. The
  failed assignment has overwritten the attribute.
\<close>

theorem failed_setters_leave_new_value:
  "fst (setattr soil_with_void_ratio ''unit_dry_weight'' (Some 2000)) =
     Some (ModelError ''New unit dry weight is inconsistent with specific gravity and void ratio'')
   \<and> unit_dry_weight soil_with_void_ratio = Some 1000
   \<and> unit_dry_weight (snd (setattr soil_with_void_ratio ''unit_dry_weight'' (Some 2000))) = Some 2000
   \<and> fst (setattr soil_with_void_ratio ''specific_gravity'' (Some 2)) =
     Some (ModelError ''specific gravity is inconsistent with set unit_dry_weight and void_ratio'')
   \<and> specific_gravity soil_with_void_ratio = Some (3/2)
   \<and> specific_gravity (snd (setattr soil_with_void_ratio ''specific_gravity'' (Some 2))) = Some 2"
  by (simp add: soil_with_void_ratio_eq setattr_def unit_dry_weight_setter_def
      specific_gravity_setter_def Soil_init_def pw_def Let_def)



section \<open>Dry weight, then specific gravity\<close>




section \<open>Bulk load\<close>

lemma set_loop_restrict:
  "set items \<subseteq> A \<Longrightarrow> set_loop s (AList.restrict A vals) items = set_loop s vals items"
  by (induction items arbitrary: s) (auto split: option.splits prod.splits)

lemma e_curr_setter_phi: "phi (snd (e_curr_setter v s)) = phi s"
  by (simp add: e_curr_setter_def split: option.splits)

lemma unit_dry_weight_setter_phi: "phi (snd (unit_dry_weight_setter v b s)) = phi s"
  by (simp add: unit_dry_weight_setter_def Let_def e_curr_setter_phi split: option.splits)

lemma specific_gravity_setter_phi: "phi (snd (specific_gravity_setter v b s)) = phi s"
  by (simp add: specific_gravity_setter_def Let_def unit_dry_weight_setter_phi split: option.splits)

lemma relative_density_setter_phi: "phi (snd (relative_density_setter v b s)) = phi s"
  by (simp add: relative_density_setter_def split: option.splits)

lemma unit_sat_weight_propagate_phi: "phi (snd (unit_sat_weight_propagate a b s)) = phi s"
  by (simp add: unit_sat_weight_propagate_def Let_def unit_dry_weight_setter_phi
      split: option.splits)

lemma unit_sat_weight_setter_phi: "phi (snd (unit_sat_weight_setter v s)) = phi s"
  by (simp add: unit_sat_weight_setter_def Let_def unit_sat_weight_propagate_phi
      split: option.splits sum.splits)


lemma setattr_phi:
  "k \<noteq> ''phi'' \<Longrightarrow> k \<noteq> ''_phi'' \<Longrightarrow> phi (snd (setattr s k v)) = phi s"
  by (simp add: setattr_def e_curr_setter_phi unit_dry_weight_setter_phi
      specific_gravity_setter_phi relative_density_setter_phi unit_sat_weight_setter_phi
      cohesion_setter_def e_min_setter_def e_max_setter_def saturation_setter_def)


lemma set_loop_phi:
  "''phi'' \<notin> set items \<Longrightarrow> ''_phi'' \<notin> set items \<Longrightarrow>
     phi (snd (set_loop s vals items)) = phi s"
proof (induction items arbitrary: s)
  case Nil
  then show ?case by simp
next
  case (Cons item items)
  then have ne: "item \<noteq> ''phi''" "item \<noteq> ''_phi''" by auto
  have ih: "phi (snd (set_loop s' vals items)) = phi s'" for s'
    using Cons by simp
  show ?case
  proof (cases "hasattr s item")
    case False
    then show ?thesis using ih by simp
  next
    case True
    show ?thesis
    proof (cases "map_of vals item")
      case None
      then show ?thesis using True by simp
    next
      case (Some v)
      obtain r s' where r: "setattr s item v = (r, s')" by (cases "setattr s item v")
      then have "phi s' = phi s"
        using setattr_phi [OF ne, of s v] by simp
      then show ?thesis
        using True Some r ih by (cases r) simp_all
    qed
  qed
qed

lemma hasattr_class_names:
  "k \<in> set [''phi'', ''_phi'', ''cohesion'', ''_cohesion'', ''unit_dry_weight'',
      ''_unit_dry_weight'', ''e_curr'', ''_e_curr'', ''specific_gravity'', ''_specific_gravity'',
      ''saturation'', ''_saturation'', ''unit_sat_weight'', ''_unit_sat_weight'', ''e_min'',
      ''_e_min'', ''e_max'', ''_e_max'', ''relative_density'', ''_relative_density'', ''e_cr0'',
      ''p_cr0'', ''lamb_crl'', ''unit_weight'', ''_g_mod'', ''_poissons_ratio''] \<Longrightarrow>
   hasattr obj k"
  by (auto simp: hasattr_def getattr_def split: option.splits)

lemma hasattr_instance_names:
  "map_of (attrs obj) k = Some v \<Longrightarrow> hasattr obj k"
  by (simp add: hasattr_def getattr_def)


lemma not_hasattr_names:
  assumes "\<not> hasattr obj k"
  shows "k \<notin> set [''phi'', ''_phi'', ''cohesion'', ''_cohesion'', ''unit_dry_weight'',
      ''_unit_dry_weight'', ''e_curr'', ''_e_curr'', ''specific_gravity'', ''_specific_gravity'',
      ''saturation'', ''_saturation'', ''unit_sat_weight'', ''_unit_sat_weight'', ''e_min'',
      ''_e_min'', ''e_max'', ''_e_max'', ''relative_density'', ''_relative_density'', ''e_cr0'',
      ''p_cr0'', ''lamb_crl'', ''unit_weight'', ''_g_mod'', ''_poissons_ratio'']"
  using assms hasattr_class_names by blast

lemma setattr_unknown:
  assumes "\<not> hasattr obj k" and "k \<notin> set read_only"
  shows "setattr obj k v = (None, obj\<lparr>attrs := AList.update k v (attrs obj)\<rparr>)"
  using not_hasattr_names [OF assms(1)] assms(2)
  by (simp add: setattr_def)

lemma getattr_unknown:
  assumes "\<not> hasattr obj k"
  shows "getattr (obj\<lparr>attrs := AList.update k v (attrs obj)\<rparr>) k = Inr v"
  using not_hasattr_names [OF assms]
  by (simp add: getattr_def update_conv')

lemma set_obj_needs_phi:
  assumes "map_of vals ''phi'' = None"
  shows "fst (set_obj obj vals) = Some KeyError"
proof -
  have h: "hasattr s ''phi''" for s
    by (simp add: hasattr_def getattr_def)
  have g: "setattr obj ''g_mod'' v = (None, obj\<lparr>attrs := AList.update ''g_mod'' v (attrs obj)\<rparr>)" for v
    by (simp add: setattr_def read_only_def)
  show ?thesis
    using assms h g by (simp add: set_obj_def inputs_def split: option.splits)
qed

lemma set_obj_assigns_phi:
  assumes "fst (set_obj obj vals) = None" and "map_of vals ''phi'' = Some v"
  shows "phi (snd (set_obj obj vals)) = v"
proof -
  define rest where "rest = [''relative_density'', ''unit_dry_weight'', ''unit_sat_weight'',
      ''cohesion'', ''poissons_ratio'', ''e_min'', ''e_max'', ''e_cr0'', ''p_cr0'', ''lamb_crl'']"
  have inp: "inputs = ''g_mod'' # ''phi'' # rest"
    by (simp add: inputs_def rest_def)
  have h: "hasattr s ''phi''" for s
    by (simp add: hasattr_def getattr_def)
  have p: "setattr s ''phi'' v = (None, s\<lparr>phi := v\<rparr>)" for s
    by (simp add: setattr_def phi_setter_def)
  have fr: "phi (snd (set_loop s vals rest)) = phi s" for s
    by (rule set_loop_phi) (simp_all add: rest_def)
  have step: "phi (snd (set_loop s vals (''phi'' # rest))) = v" for s
    using h [of s] p [of s] fr [of "s\<lparr>phi := v\<rparr>"] assms(2) by simp
  show ?thesis
  proof (cases "hasattr obj ''g_mod''")
    case False
    then show ?thesis using step [of obj] by (simp add: set_obj_def inp)
  next
    case True
    show ?thesis
    proof (cases "map_of vals ''g_mod''")
      case None
      then show ?thesis using True assms(1) by (simp add: set_obj_def inp)
    next
      case (Some w)
      have g: "setattr obj ''g_mod'' w = (None, obj\<lparr>attrs := AList.update ''g_mod'' w (attrs obj)\<rparr>)"
        by (simp add: setattr_def read_only_def)
      show ?thesis
        using True Some g step [of "obj\<lparr>attrs := AList.update ''g_mod'' w (attrs obj)\<rparr>"]
        by (simp add: set_obj_def inp)
    qed
  qed
qed

lemma add_to_obj_filter:
  "add_to_obj obj d exc =
     add_to_obj obj (filter (\<lambda>kv. fst kv \<notin> set exc \<and> snd kv \<noteq> None) d) []"
proof (induction d arbitrary: obj)
  case Nil
  then show ?case by simp
next
  case (Cons kv d)
  obtain k v where kv: "kv = (k, v)" by (cases kv)
  show ?case
  proof (cases "k \<in> set exc \<or> v = None")
    case True
    then show ?thesis using Cons [of obj] by (auto simp: kv)
  next
    case False
    then obtain x where x: "v = Some x" by auto
    obtain r obj' where r: "setattr obj k (Some x) = (r, obj')"
      by (cases "setattr obj k (Some x)")
    show ?thesis
      using False x r Cons [of obj'] by (cases r) (simp_all add: kv)
  qed
qed

lemma add_to_obj_append:
  "add_to_obj obj (d1 @ d2) exc =
     (case add_to_obj obj d1 exc of
        (None, obj') \<Rightarrow> add_to_obj obj' d2 exc
      | (Some err, obj') \<Rightarrow> (Some err, obj'))"
proof (induction d1 arbitrary: obj)
  case Nil
  then show ?case by simp
next
  case (Cons kv d1)
  obtain k v where kv: "kv = (k, v)" by (cases kv)
  show ?case
  proof (cases "k \<in> set exc \<or> v = None")
    case True
    then show ?thesis using Cons [of obj] by (auto simp: kv)
  next
    case False
    then obtain x where x: "v = Some x" by auto
    obtain r obj' where r: "setattr obj k (Some x) = (r, obj')"
      by (cases "setattr obj k (Some x)")
    show ?thesis
      using False x r Cons [of obj'] by (cases r) (simp_all add: kv)
  qed
qed

lemma set_loop_append:
  "set_loop obj vals (xs @ ys) =
     (case set_loop obj vals xs of
        (None, obj') \<Rightarrow> set_loop obj' vals ys
      | (Some err, obj') \<Rightarrow> (Some err, obj'))"
proof (induction xs arbitrary: obj)
  case Nil
  then show ?case by simp
next
  case (Cons item xs)
  show ?case
  proof (cases "hasattr obj item")
    case False
    then show ?thesis using Cons [of obj] by simp
  next
    case True
    show ?thesis
    proof (cases "map_of vals item")
      case None
      then show ?thesis using True by simp
    next
      case (Some v)
      obtain r obj' where r: "setattr obj item v = (r, obj')"
        by (cases "setattr obj item v")
      show ?thesis
        using True Some r Cons [of obj'] by (cases r) simp_all
    qed
  qed
qed

lemma set_loop_single:
  "set_loop obj vals [n] =
     (if hasattr obj n then
        (case map_of vals n of
           None \<Rightarrow> (Some KeyError, obj)
         | Some v \<Rightarrow> setattr obj n v)
      else (None, obj))"
proof (cases "map_of vals n")
  case None
  then show ?thesis by simp
next
  case (Some v)
  obtain r obj' where r: "setattr obj n v = (r, obj')"
    by (cases "setattr obj n v")
  show ?thesis
    using Some r by (cases r) simp_all
qed

lemma e_curr_setter_attrs: "attrs (snd (e_curr_setter v s)) = attrs s"
  by (simp add: e_curr_setter_def split: option.splits)

lemma unit_dry_weight_setter_attrs: "attrs (snd (unit_dry_weight_setter v b s)) = attrs s"
  by (simp add: unit_dry_weight_setter_def Let_def e_curr_setter_attrs split: option.splits)

lemma specific_gravity_setter_attrs: "attrs (snd (specific_gravity_setter v b s)) = attrs s"
  by (simp add: specific_gravity_setter_def Let_def unit_dry_weight_setter_attrs
      split: option.splits)

lemma relative_density_setter_attrs: "attrs (snd (relative_density_setter v b s)) = attrs s"
  by (simp add: relative_density_setter_def split: option.splits)

lemma unit_sat_weight_propagate_attrs: "attrs (snd (unit_sat_weight_propagate a b s)) = attrs s"
  by (simp add: unit_sat_weight_propagate_def Let_def unit_dry_weight_setter_attrs
      split: option.splits)

lemma unit_sat_weight_setter_attrs: "attrs (snd (unit_sat_weight_setter v s)) = attrs s"
  by (simp add: unit_sat_weight_setter_def Let_def unit_sat_weight_propagate_attrs
      split: option.splits sum.splits)

lemma setattr_attrs:
  "attrs (snd (setattr s k v)) = attrs s
   \<or> attrs (snd (setattr s k v)) = AList.update k v (attrs s)"
  by (simp add: setattr_def e_curr_setter_attrs unit_dry_weight_setter_attrs
      specific_gravity_setter_attrs relative_density_setter_attrs unit_sat_weight_setter_attrs
      phi_setter_def cohesion_setter_def e_min_setter_def e_max_setter_def saturation_setter_def)


lemma hasattr_setattr:
  assumes "hasattr s n"
  shows "hasattr (snd (setattr s k v)) n"
proof (cases "n \<in> set [''phi'', ''_phi'', ''cohesion'', ''_cohesion'', ''unit_dry_weight'',
      ''_unit_dry_weight'', ''e_curr'', ''_e_curr'', ''specific_gravity'', ''_specific_gravity'',
      ''saturation'', ''_saturation'', ''unit_sat_weight'', ''_unit_sat_weight'', ''e_min'',
      ''_e_min'', ''e_max'', ''_e_max'', ''relative_density'', ''_relative_density'', ''e_cr0'',
      ''p_cr0'', ''lamb_crl'', ''unit_weight'', ''_g_mod'', ''_poissons_ratio'']")
  case True
  then show ?thesis by (rule hasattr_class_names)
next
  case False
  then have "\<exists>w. map_of (attrs s) n = Some w"
    using assms by (simp add: hasattr_def getattr_def split: option.splits)
  then obtain w where w: "map_of (attrs s) n = Some w" ..
  have "\<exists>u. map_of (attrs (snd (setattr s k v))) n = Some u"
    using setattr_attrs [of s k v] w by (auto simp: update_conv')
  then show ?thesis
    using hasattr_instance_names by blast
qed

lemma set_loop_missing:
  "n \<in> set items \<Longrightarrow> hasattr obj n \<Longrightarrow> map_of vals n = None \<Longrightarrow>
     fst (set_loop obj vals items) \<noteq> None"
proof (induction items arbitrary: obj)
  case Nil
  then show ?case by simp
next
  case (Cons item items)
  show ?case
  proof (cases "item = n")
    case True
    then show ?thesis using Cons.prems by simp
  next
    case ne: False
    then have mem: "n \<in> set items" using Cons.prems by simp
    show ?thesis
    proof (cases "hasattr obj item")
      case False
      then show ?thesis using Cons.IH [OF mem Cons.prems(2) Cons.prems(3)] by simp
    next
      case True
      show ?thesis
      proof (cases "map_of vals item")
        case None
        then show ?thesis using True by simp
      next
        case (Some v)
        obtain r obj' where r: "setattr obj item v = (r, obj')"
          by (cases "setattr obj item v")
        have "hasattr obj' n"
          using hasattr_setattr [OF Cons.prems(2), of item v] r by simp
        then have "fst (set_loop obj' vals items) \<noteq> None"
          using Cons.IH [OF mem _ Cons.prems(3)] by simp
        then show ?thesis
          using True Some r by (cases r) simp_all
      qed
    qed
  qed
qed

text \<open>
  C5, amended, for a Soil. The two bulk loads follow different rules.

  \<^verbatim>\<open>add_to_obj\<close> skips the entries whose key is in \<^verbatim>\<open>exceptions\<close> or whose value is
  \<^verbatim>\<open>None\<close> (the mapping without them, loaded with no exceptions, gives the same); it
  handles the entries in mapping order and stops at the first exception (loading
  \<open>d1 @ d2\<close> is loading \<open>d1\<close> and then, unless that raised, \<open>d2\<close>); and an entry that
  is not skipped is assigned by \<^verbatim>\<open>setattr\<close>. A key that is not an attribute of the object
  is therefore not ignored: it becomes a new attribute holding the value, without error.

  \<^verbatim>\<open>PhysicalObject.set\<close> walks the twelve names of \<^verbatim>\<open>inputs\<close> in their order and stops
  at the first exception; for a name the object does not have it does nothing, for a name
  the mapping does not have it raises \<^verbatim>\<open>KeyError\<close>, and otherwise it assigns the mapping's
  value by \<^verbatim>\<open>setattr\<close>, \<^verbatim>\<open>None\<close> included. So the keys outside \<^verbatim>\<open>inputs\<close> are ignored (the
  mapping restricted to \<^verbatim>\<open>inputs\<close> loads the same); a mapping that lacks a name of
  \<^verbatim>\<open>inputs\<close> which the object has never returns normally, and lacking \<^verbatim>\<open>phi\<close> it raises
  \<^verbatim>\<open>KeyError\<close>; and after a normal return \<^verbatim>\<open>phi\<close> is the value the mapping gives.
\<close>

theorem bulk_load_rules:
  "add_to_obj obj d exc =
     add_to_obj obj (filter (\<lambda>kv. fst kv \<notin> set exc \<and> snd kv \<noteq> None) d) []
   \<and> add_to_obj obj (d1 @ d2) exc =
       (case add_to_obj obj d1 exc of
          (None, obj') \<Rightarrow> add_to_obj obj' d2 exc
        | (Some err, obj') \<Rightarrow> (Some err, obj'))
   \<and> (k \<notin> set exc \<longrightarrow> add_to_obj obj [(k, Some x)] exc = setattr obj k (Some x))
   \<and> (modelled_name k \<and> \<not> hasattr obj k \<and> k \<notin> set exc \<longrightarrow>
        add_to_obj obj [(k, Some x)] exc
          = (None, obj\<lparr>attrs := AList.update k (Some x) (attrs obj)\<rparr>)
        \<and> getattr (snd (add_to_obj obj [(k, Some x)] exc)) k = Inr (Some x))
   \<and> set_obj obj vals =
       set_loop obj vals [''g_mod'', ''phi'', ''relative_density'', ''unit_dry_weight'',
         ''unit_sat_weight'', ''cohesion'', ''poissons_ratio'', ''e_min'', ''e_max'', ''e_cr0'',
         ''p_cr0'', ''lamb_crl'']
   \<and> set_loop obj vals (xs @ ys) =
       (case set_loop obj vals xs of
          (None, obj') \<Rightarrow> set_loop obj' vals ys
        | (Some err, obj') \<Rightarrow> (Some err, obj'))
   \<and> set_loop obj vals [n] =
       (if hasattr obj n then
          (case map_of vals n of
             None \<Rightarrow> (Some KeyError, obj)
           | Some v \<Rightarrow> setattr obj n v)
        else (None, obj))
   \<and> set_obj obj (AList.restrict (set inputs) vals) = set_obj obj vals
   \<and> (m \<in> set inputs \<and> hasattr obj m \<and> map_of vals m = None \<longrightarrow>
        fst (set_obj obj vals) \<noteq> None)
   \<and> (fst (set_obj obj vals) = None \<and> map_of vals ''phi'' = Some w \<longrightarrow>
        phi (snd (set_obj obj vals)) = w)
   \<and> (map_of vals ''phi'' = None \<longrightarrow> fst (set_obj obj vals) = Some KeyError)"
proof -
  have 1: "add_to_obj obj d exc =
      add_to_obj obj (filter (\<lambda>kv. fst kv \<notin> set exc \<and> snd kv \<noteq> None) d) []"
    by (rule add_to_obj_filter)
  have 2: "add_to_obj obj (d1 @ d2) exc =
       (case add_to_obj obj d1 exc of
          (None, obj') \<Rightarrow> add_to_obj obj' d2 exc
        | (Some err, obj') \<Rightarrow> (Some err, obj'))"
    by (rule add_to_obj_append)
  have 3: "add_to_obj obj [(k, Some x)] exc = setattr obj k (Some x)" if "k \<notin> set exc"
  proof -
    obtain r obj' where "setattr obj k (Some x) = (r, obj')"
      by (cases "setattr obj k (Some x)")
    then show ?thesis using that by (cases r) simp_all
  qed
  have 4: "add_to_obj obj [(k, Some x)] exc
          = (None, obj\<lparr>attrs := AList.update k (Some x) (attrs obj)\<rparr>)
        \<and> getattr (snd (add_to_obj obj [(k, Some x)] exc)) k = Inr (Some x)"
    if "modelled_name k" "\<not> hasattr obj k" "k \<notin> set exc"
  proof -
    have "k \<notin> set read_only"
      using that(1) by (simp add: modelled_name_def)
    then show ?thesis
      using that by (simp add: setattr_unknown getattr_unknown)
  qed
  have 5: "set_obj obj vals =
       set_loop obj vals [''g_mod'', ''phi'', ''relative_density'', ''unit_dry_weight'',
         ''unit_sat_weight'', ''cohesion'', ''poissons_ratio'', ''e_min'', ''e_max'', ''e_cr0'',
         ''p_cr0'', ''lamb_crl'']"
    by (simp only: set_obj_def inputs_def)
  have 6: "set_loop obj vals (xs @ ys) =
       (case set_loop obj vals xs of
          (None, obj') \<Rightarrow> set_loop obj' vals ys
        | (Some err, obj') \<Rightarrow> (Some err, obj'))"
    by (rule set_loop_append)
  have 7: "set_loop obj vals [n] =
       (if hasattr obj n then
          (case map_of vals n of
             None \<Rightarrow> (Some KeyError, obj)
           | Some v \<Rightarrow> setattr obj n v)
        else (None, obj))"
    by (rule set_loop_single)
  have 8: "set_obj obj (AList.restrict (set inputs) vals) = set_obj obj vals"
    by (simp add: set_obj_def set_loop_restrict)
  have 9: "fst (set_obj obj vals) \<noteq> None"
    if "m \<in> set inputs" "hasattr obj m" "map_of vals m = None"
    unfolding set_obj_def using that by (rule set_loop_missing)
  show ?thesis
    using 1 2 3 4 5 6 7 8 9 set_obj_assigns_phi [of obj vals w] set_obj_needs_phi [of vals obj]
    by blast
qed

lemma soil_with_phi_eq: "soil_with_phi = Soil_init\<lparr>phi := Some 30\<rparr>"
  by (simp add: soil_with_phi_def setattr_def phi_setter_def)

lemma set_obj_all_none:
  "set_obj soil_with_phi all_none
     = (None, Soil_init\<lparr>e_cr0 := None, p_cr0 := None, lamb_crl := None\<rparr>)"
  by (simp add: soil_with_phi_eq set_obj_def all_none_def inputs_def hasattr_def getattr_def
      setattr_def phi_setter_def cohesion_setter_def e_min_setter_def e_max_setter_def
      relative_density_setter_def unit_dry_weight_setter_def unit_sat_weight_setter_def
      unit_sat_weight_try_def unit_moisture_weight_def unit_void_volume_def Soil_init_def Let_def)

lemma add_to_obj_foo:
  "add_to_obj Soil_init [(''foo'', Some 1)] [] = (None, Soil_init\<lparr>attrs := [(''foo'', Some 1)]\<rparr>)"
  by (simp add: setattr_def read_only_def Soil_init_def)

lemma getattr_foo:
  "getattr Soil_init ''foo'' = Inl (AttributeError ''foo'')"
  "getattr (Soil_init\<lparr>attrs := [(''foo'', Some 1)]\<rparr>) ''foo'' = Inr (Some 1)"
  by (simp_all add: getattr_def Soil_init_def)

text \<open>
  C5, as stated, fails for both bulk loads. \<^verbatim>\<open>foo\<close> is not an attribute of a fresh Soil,
  yet \<^verbatim>\<open>add_to_obj\<close> with the mapping \<^verbatim>\<open>{"foo": 1}\<close> does not ignore the key: the Soil
  has the attribute \<^verbatim>\<open>foo = 1\<close> afterwards. And \<^verbatim>\<open>set\<close> with a mapping that gives
  \<^verbatim>\<open>None\<close> to every input does not skip the entry of \<^verbatim>\<open>phi\<close>: on a Soil with
  \<^verbatim>\<open>phi = 30\<close> it returns normally and \<^verbatim>\<open>phi\<close> is \<^verbatim>\<open>None\<close> afterwards.
\<close>

theorem bulk_load_counterexample:
  "getattr Soil_init ''foo'' = Inl (AttributeError ''foo'')
   \<and> fst (add_to_obj Soil_init [(''foo'', Some 1)] []) = None
   \<and> getattr (snd (add_to_obj Soil_init [(''foo'', Some 1)] [])) ''foo'' = Inr (Some 1)
   \<and> phi soil_with_phi = Some 30
   \<and> map_of all_none ''phi'' = Some None
   \<and> fst (set_obj soil_with_phi all_none) = None
   \<and> phi (snd (set_obj soil_with_phi all_none)) = None"
proof -
  have "map_of all_none ''phi'' = Some None"
    by (simp add: all_none_def inputs_def)
  moreover have "phi soil_with_phi = Some 30"
    by (simp add: soil_with_phi_eq)
  moreover have "phi Soil_init = None"
    by (simp add: Soil_init_def)
  ultimately show ?thesis
    by (simp add: set_obj_all_none add_to_obj_foo getattr_foo del: add_to_obj.simps)
qed

text \<open>C5 on a fresh Soil and on the Soil with \<^verbatim>\<open>phi = 30\<close>.\<close>

theorem bulk_load_rules_witness:
  "''foo'' \<notin> set ([] :: string list) \<and> modelled_name ''foo'' \<and> \<not> hasattr Soil_init ''foo''
   \<and> add_to_obj Soil_init [(''foo'', Some 1)] [] = setattr Soil_init ''foo'' (Some 1)
   \<and> getattr (snd (add_to_obj Soil_init [(''foo'', Some 1)] [])) ''foo'' = Inr (Some 1)
   \<and> ''cohesion'' \<in> set inputs \<and> hasattr Soil_init ''cohesion''
   \<and> map_of [(''phi'', Some 30)] ''cohesion'' = (None :: val option)
   \<and> fst (set_obj Soil_init [(''phi'', Some 30)]) \<noteq> None
   \<and> fst (set_obj soil_with_phi all_none) = None \<and> map_of all_none ''phi'' = Some None
   \<and> phi (snd (set_obj soil_with_phi all_none)) = None
   \<and> map_of [] ''phi'' = (None :: val option)
   \<and> fst (set_obj Soil_init []) = Some KeyError"
proof -
  have a: "\<not> hasattr Soil_init ''foo''"
    by (simp add: hasattr_def getattr_def Soil_init_def)
  have b: "modelled_name ''foo''"
    by (simp add: modelled_name_def unmodelled_members_def read_only_def)
  have c: "fst (set_obj soil_with_phi all_none) = None"
    by (simp add: set_obj_all_none)
  have d: "map_of all_none ''phi'' = Some None"
    by (simp add: all_none_def inputs_def)
  have e: "map_of [] ''phi'' = (None :: val option)"
    by simp
  have f: "''foo'' \<notin> set ([] :: string list)"
    by simp
  have g: "''cohesion'' \<in> set inputs"
    by (simp add: inputs_def)
  have h: "hasattr Soil_init ''cohesion''"
    by (simp add: hasattr_def getattr_def)
  have i: "map_of [(''phi'', Some 30)] ''cohesion'' = (None :: val option)"
    by simp
  note r1 = bulk_load_rules [where obj = Soil_init and exc = "[]" and k = "''foo''" and x = 1
      and vals = "[]"]
  note r2 = bulk_load_rules [where obj = soil_with_phi and vals = all_none and w = None]
  note r3 = bulk_load_rules [where obj = Soil_init and vals = "[(''phi'', Some 30)]"
      and m = "''cohesion''"]
  have w1: "add_to_obj Soil_init [(''foo'', Some 1)] [] = setattr Soil_init ''foo'' (Some 1)"
    using r1 f by blast
  have w2: "getattr (snd (add_to_obj Soil_init [(''foo'', Some 1)] [])) ''foo'' = Inr (Some 1)"
    using r1 a b f by blast
  have w3: "phi (snd (set_obj soil_with_phi all_none)) = None"
    using r2 c d by blast
  have w4: "fst (set_obj Soil_init []) = Some KeyError"
    using r1 e by blast
  have w5: "fst (set_obj Soil_init [(''phi'', Some 30)]) \<noteq> None"
    using r3 g h i by blast
  show ?thesis
    using a b c d e f g h i w1 w2 w3 w4 w5 by blast
qed

section \<open>The layer order\<close>

lemma map_fst_insort_key:
  "map fst (insort_key fst x xs) = insort (fst x) (map fst xs)"
  by (induction xs) auto

lemma map_fst_sort_key: "map fst (sort_key fst xs) = sort (map fst xs)"
  by (induction xs) (auto simp: map_fst_insort_key)

lemma layers_sorted_init: "layers_sorted SoilProfile_init"
  by (simp add: layers_sorted_def depths_def SoilProfile_init_def)

lemma layers_sorted_add_layer:
  assumes "layers_sorted p"
  shows "layers_sorted (add_layer depth soil p)"
proof -
  have "distinct (map fst (layers p))"
    using assms by (simp add: layers_sorted_def depths_def strict_sorted_iff)
  then have "distinct (map fst (AList.update depth soil (layers p)))"
    by (rule distinct_update)
  then show ?thesis
    by (simp add: layers_sorted_def depths_def add_layer_def sort_layers_def map_fst_sort_key
        strict_sorted_iff)
qed

lemma layers_sorted_remove_layer:
  assumes "layers_sorted p" and "remove_layer depth p = Inr p'"
  shows "layers_sorted p'"
proof -
  have "layers p' = AList.delete depth (layers p)"
    using assms(2) by (auto simp: remove_layer_def split: option.splits)
  then have "depths p' = filter (\<lambda>d. d \<noteq> depth) (depths p)"
    by (simp add: depths_def delete_keys removeAll_filter_not_eq) (metis)
  then show ?thesis
    using assms(1) by (simp add: layers_sorted_def sorted_wrt_filter)
qed

lemma layers_sorted_apply:
  "layers_sorted p \<Longrightarrow> layers_sorted (apply_layer_op p op)"
  by (cases op) (auto simp: layers_sorted_add_layer split: sum.splits dest: layers_sorted_remove_layer)

lemma layers_sorted_foldl:
  "layers_sorted p \<Longrightarrow> layers_sorted (foldl apply_layer_op p ops)"
  by (induction ops arbitrary: p) (auto simp: layers_sorted_apply)

section \<open>Total stress as a function of depth\<close>

lemma stress_loop_above:
  "sorted_wrt (<) (map fst ls) \<Longrightarrow> ls = [] \<or> z \<le> fst (hd ls) \<Longrightarrow> stress_loop z ls t = Inr t"
  by (induction z ls t rule: stress_loop.induct) auto

lemma stress_loop_ge:
  "sorted_wrt (<) (map fst ls) \<Longrightarrow> list_all (\<lambda>l. weight_set_nonneg (snd l)) ls \<Longrightarrow>
     \<exists>a. stress_loop z ls t = Inr a \<and> t \<le> a"
proof (induction z ls t rule: stress_loop.induct)
  case (1 z t)
  then show ?case by simp
next
  case (2 z d soil t)
  then show ?case
    by (auto simp: weight_set_nonneg_def split: option.splits)
next
  case (3 z d soil d' soil' rest t)
  then obtain w where w: "unit_weight soil = Some w" "0 \<le> w"
    by (auto simp: weight_set_nonneg_def split: option.splits)
  have dd: "d < d'" using 3 by simp
  show ?case
  proof (cases "z > d")
    case False
    then show ?thesis using 3 by simp
  next
    case zd: True
    show ?thesis
    proof (cases "z > d'")
      case True
      have "0 \<le> (d' - d) * w" using dd w by simp
      moreover obtain a where "stress_loop z ((d', soil') # rest) (t + (d' - d) * w) = Inr a"
        "t + (d' - d) * w \<le> a"
        using 3 zd True w by auto
      ultimately show ?thesis using zd True w by auto
    next
      case False
      have "0 \<le> (z - d) * w" using zd w by simp
      then show ?thesis using zd False w by auto
    qed
  qed
qed


lemma stress_loop_mono:
  "sorted_wrt (<) (map fst ls) \<Longrightarrow> list_all (\<lambda>l. weight_set_nonneg (snd l)) ls \<Longrightarrow>
     z1 \<le> z2 \<Longrightarrow> t1 \<le> t2 \<Longrightarrow>
     \<exists>a b. stress_loop z1 ls t1 = Inr a \<and> stress_loop z2 ls t2 = Inr b \<and> a \<le> b"
proof (induction z1 ls t1 arbitrary: t2 rule: stress_loop.induct)
  case (1 z t)
  then show ?case by simp
next
  case (2 z d soil t)
  then obtain w where w: "unit_weight soil = Some w" "0 \<le> w"
    by (auto simp: weight_set_nonneg_def split: option.splits)
  have zz: "z \<le> z2" and tt: "t \<le> t2" using 2 by simp_all
  show ?case
  proof (cases "z > d")
    case True
    have "(z - d) * w \<le> (z2 - d) * w"
      using w zz by (simp add: mult_right_mono)
    then show ?thesis using True zz tt w by auto
  next
    case False
    show ?thesis
    proof (cases "z2 > d")
      case True
      have "0 \<le> (z2 - d) * w" using True w by simp
      then have "t \<le> t2 + (z2 - d) * w" using tt by linarith
      then show ?thesis using False True w by auto
    next
      case z2nd: False
      then show ?thesis using False tt by auto
    qed
  qed
next
  case (3 z d soil d' soil' rest t)
  then obtain w where w: "unit_weight soil = Some w" "0 \<le> w"
    by (auto simp: weight_set_nonneg_def split: option.splits)
  have dd: "d < d'" using 3 by simp
  have srt: "sorted_wrt (<) (map fst ((d', soil') # rest))" using 3 by simp
  have wts: "list_all (\<lambda>l. weight_set_nonneg (snd l)) ((d', soil') # rest)" using 3 by simp
  have zz: "z \<le> z2" and tt: "t \<le> t2" using 3 by simp_all
  show ?case
  proof (cases "z > d")
    case False
    then have 1: "stress_loop z ((d, soil) # (d', soil') # rest) t = Inr t"
      using stress_loop_above [of "(d, soil) # (d', soil') # rest" z t] "3.prems"(1) by simp
    obtain b where "stress_loop z2 ((d, soil) # (d', soil') # rest) t2 = Inr b" "t2 \<le> b"
      using stress_loop_ge [OF "3.prems"(1) "3.prems"(2)] by blast
    then show ?thesis using 1 tt by auto
  next
    case zd: True
    then have z2d: "z2 > d" using zz by simp
    show ?thesis
    proof (cases "z > d'")
      case True
      then have z2d': "z2 > d'" using zz by simp
      have "t + (d' - d) * w \<le> t2 + (d' - d) * w" using tt by simp
      then obtain a b where
        "stress_loop z ((d', soil') # rest) (t + (d' - d) * w) = Inr a"
        "stress_loop z2 ((d', soil') # rest) (t2 + (d' - d) * w) = Inr b" "a \<le> b"
        using "3.IH"(1) [OF zd True w(1) srt wts zz] by blast
      then show ?thesis using zd True z2d z2d' w by auto
    next
      case False
      then have a: "stress_loop z ((d, soil) # (d', soil') # rest) t = Inr (t + (z - d) * w)"
        using zd w by simp
      show ?thesis
      proof (cases "z2 > d'")
        case True
        obtain b where b: "stress_loop z2 ((d', soil') # rest) (t2 + (d' - d) * w) = Inr b"
          "t2 + (d' - d) * w \<le> b"
          using stress_loop_ge [OF srt wts] by blast
        have "(z - d) * w \<le> (d' - d) * w"
          using False w by (simp add: mult_right_mono)
        then have "t + (z - d) * w \<le> b" using b tt by linarith
        then show ?thesis using a b z2d True w by auto
      next
        case z2nd: False
        have "(z - d) * w \<le> (z2 - d) * w"
          using zz w by (simp add: mult_right_mono)
        then show ?thesis using a z2d z2nd w tt by auto
      qed
    qed
  qed
qed


text \<open>
  C4, amended. On a profile whose layers are in ascending order of depth (the order that
  \<^verbatim>\<open>__init__\<close>, \<^verbatim>\<open>add_layer\<close> and \<^verbatim>\<open>remove_layer\<close> keep) and whose layers all have a
  \<^verbatim>\<open>unit_weight\<close> that is set and not negative, \<^verbatim>\<open>one_vertical_total_stress\<close> returns a
  number at every depth and is non-decreasing in the depth; it returns 0 at every depth
  at or above the top of the first layer, whatever the unit weights are. So
  \<^verbatim>\<open>vertical_total_stress(0)\<close> is 0 when the top of the first layer is at depth 0 or
  deeper, as in a new profile; it need not be 0 when a layer starts above depth 0.
\<close>

theorem total_stress_monotone:
  assumes "layers_sorted p" and "list_all (\<lambda>l. weight_set_nonneg (snd l)) (layers p)"
    and "z1 \<le> z2"
  shows "(\<exists>a b. one_vertical_total_stress p z1 = Inr a \<and> one_vertical_total_stress p z2 = Inr b
            \<and> a \<le> b)
       \<and> ((layers p = [] \<or> z \<le> hd (depths p)) \<longrightarrow> one_vertical_total_stress p z = Inr 0)
       \<and> ((layers p = [] \<or> 0 \<le> hd (depths p)) \<longrightarrow> vertical_total_stress p 0 = Inr 0)"
proof -
  have srt: "sorted_wrt (<) (map fst (layers p))"
    using assms(1) by (simp add: layers_sorted_def depths_def)
  have mono: "\<exists>a b. one_vertical_total_stress p z1 = Inr a \<and> one_vertical_total_stress p z2 = Inr b
      \<and> a \<le> b"
    unfolding one_vertical_total_stress_def
    using stress_loop_mono [OF srt assms(2) assms(3), of 0 0] by simp
  have top: "one_vertical_total_stress p y = Inr 0" if "layers p = [] \<or> y \<le> hd (depths p)" for y
  proof -
    have "layers p = [] \<or> y \<le> fst (hd (layers p))"
      using that by (cases "layers p") (auto simp: depths_def)
    then show ?thesis
      unfolding one_vertical_total_stress_def using stress_loop_above [OF srt] by blast
  qed
  show ?thesis
    using mono top by (simp add: vertical_total_stress_def)
qed

text \<open>The scenario profile meets the hypotheses of C4, at the depths 3 and 7.\<close>

theorem total_stress_monotone_witness:
  "layers_sorted scenario_profile
   \<and> list_all (\<lambda>l. weight_set_nonneg (snd l)) (layers scenario_profile)
   \<and> (\<exists>a b. one_vertical_total_stress scenario_profile 3 = Inr a
         \<and> one_vertical_total_stress scenario_profile 7 = Inr b \<and> a \<le> b)
   \<and> one_vertical_total_stress scenario_profile (-1) = Inr 0
   \<and> vertical_total_stress scenario_profile 0 = Inr 0"
proof -
  have 1: "layers_sorted scenario_profile"
    by (simp add: layers_sorted_def depths_def scenario_layers)
  have 2: "list_all (\<lambda>l. weight_set_nonneg (snd l)) (layers scenario_profile)"
    by (simp add: scenario_layers weight_set_nonneg_def unit_weight_soil_a unit_weight_soil_b)
  have 3: "(3::real) \<le> 7" by simp
  show ?thesis
    using 1 2 total_stress_monotone [OF 1 2 3, of "-1"]
    by (simp add: depths_def scenario_layers)
qed

text \<open>
  C4, as stated, fails in its last part: the profile with layers at depths -1 and 0
  (unit weights 18000 and 19000) is in ascending order with unit weights that are set and
  not negative, and \<^verbatim>\<open>vertical_total_stress(0)\<close> is 18000, the weight of the metre of
  soil above depth 0.
\<close>

theorem total_stress_at_zero_counterexample:
  "layers_sorted profile_below_zero
   \<and> list_all (\<lambda>l. weight_set_nonneg (snd l)) (layers profile_below_zero)
   \<and> vertical_total_stress profile_below_zero 0 = Inr 18000
   \<and> vertical_total_stress profile_below_zero 0 \<noteq> Inr 0"
proof -
  have l: "layers profile_below_zero = [(-1, soil_a), (0, soil_b)]"
    by (simp add: profile_below_zero_def add_layer_def sort_layers_def SoilProfile_init_def)
  show ?thesis
    by (simp add: l layers_sorted_def depths_def weight_set_nonneg_def unit_weight_soil_a
        unit_weight_soil_b vertical_total_stress_def one_vertical_total_stress_def)
qed

text \<open>C7 on the scenario profile, whose \<^verbatim>\<open>gwl\<close> is 2, at the depths 1 and 3.\<close>

theorem effective_stress_water_table_witness:
  "gwl scenario_profile = Some 2
   \<and> vertical_effective_stress scenario_profile 1 = vertical_total_stress scenario_profile 1
   \<and> vertical_effective_stress scenario_profile 3 = Inr (54000 - (3 - 2) * 9800)"
proof -
  have g: "gwl scenario_profile = Some 2"
    by (simp add: scenario_profile_def)
  have w: "unit_weight_water scenario_profile = 9800"
    by (simp add: scenario_profile_def add_layer_def sort_layers_def SoilProfile_init_def)
  have t: "vertical_total_stress scenario_profile 3 = Inr 54000"
    by (simp add: vertical_total_stress_def one_vertical_total_stress_def scenario_layers
        unit_weight_soil_a unit_weight_soil_b)
  show ?thesis
    using g effective_stress_water_table [OF g, of 1] effective_stress_water_table [OF g, of 3]
    by (simp add: w t)
qed

lemma map_of_sort_key_fst:
  assumes "distinct (map fst xs)"
  shows "map_of (sort_key fst xs) = map_of xs"
proof -
  have "distinct (map fst (sort_key fst xs))"
    using assms by (simp add: map_fst_sort_key)
  then show ?thesis
    using assms by (simp add: map_of_inject_set)
qed

lemma add_layer_lookup:
  assumes "layers_sorted p"
  shows "map_of (layers (add_layer depth soil p)) = (map_of (layers p))(depth \<mapsto> soil)"
proof -
  have "distinct (map fst (layers p))"
    using assms by (simp add: layers_sorted_def depths_def strict_sorted_iff)
  then have "distinct (map fst (AList.update depth soil (layers p)))"
    by (rule distinct_update)
  then show ?thesis
    by (simp add: add_layer_def sort_layers_def map_of_sort_key_fst update_conv')
qed

lemma add_layer_present_depths:
  assumes "layers_sorted p" and "depth \<in> set (depths p)"
  shows "depths (add_layer depth soil p) = depths p"
proof -
  have "sorted (depths p)"
    using assms(1) by (simp add: layers_sorted_def strict_sorted_iff)
  moreover have "map fst (AList.update depth soil (layers p)) = depths p"
    using assms(2) by (simp add: update_keys depths_def)
  ultimately show ?thesis
    by (simp add: add_layer_def sort_layers_def depths_def map_fst_sort_key sorted_sort_id)
qed

lemma remove_layer_error_iff:
  "(remove_layer depth p = Inl KeyError) = (depth \<notin> set (depths p))"
proof (cases "map_of (layers p) depth")
  case None
  then have "depth \<notin> fst ` set (layers p)"
    using map_of_eq_None_iff [of "layers p" depth] by simp
  then show ?thesis
    using None by (simp add: remove_layer_def depths_def)
next
  case (Some soil)
  then have "depth \<in> fst ` set (layers p)"
    using map_of_eq_None_iff [of "layers p" depth] by simp
  then show ?thesis
    using Some by (simp add: remove_layer_def depths_def)
qed

lemma remove_layer_ok_iff:
  "(\<exists>p'. remove_layer depth p = Inr p') = (depth \<in> set (depths p))"
proof (cases "map_of (layers p) depth")
  case None
  then have "depth \<notin> fst ` set (layers p)"
    using map_of_eq_None_iff [of "layers p" depth] by simp
  then show ?thesis
    using None by (simp add: remove_layer_def depths_def)
next
  case (Some soil)
  then have "depth \<in> fst ` set (layers p)"
    using map_of_eq_None_iff [of "layers p" depth] by simp
  then show ?thesis
    using Some by (simp add: remove_layer_def depths_def)
qed

text \<open>
  C8. A new profile has its layers in strictly ascending order of depth, and after every
  prefix of every sequence of \<^verbatim>\<open>add_layer\<close> and \<^verbatim>\<open>remove_layer\<close> calls on an ordered
  profile the layers are again in strictly ascending order. \<^verbatim>\<open>add_layer\<close> never raises;
  at a depth that is present it replaces the Soil of that depth and leaves the depths
  and the other layers as they were. \<^verbatim>\<open>remove_layer\<close> raises exactly when no layer has
  the given depth, and what it raises is \<^verbatim>\<open>KeyError\<close>.
\<close>

theorem layer_mutations_keep_order:
  "layers_sorted SoilProfile_init
   \<and> (layers_sorted p \<longrightarrow> layers_sorted (foldl apply_layer_op p (take n ops)))
   \<and> (layers_sorted p \<longrightarrow> depth \<in> set (depths p) \<longrightarrow>
        map_of (layers (add_layer depth soil p)) = (map_of (layers p))(depth \<mapsto> soil)
        \<and> depths (add_layer depth soil p) = depths p)
   \<and> ((\<exists>err. remove_layer depth p = Inl err) = (depth \<notin> set (depths p)))
   \<and> ((remove_layer depth p = Inl KeyError) = (depth \<notin> set (depths p)))"
proof -
  have "(\<exists>err. remove_layer depth p = Inl err) = (depth \<notin> set (depths p))"
    using remove_layer_ok_iff [of depth p] by (cases "remove_layer depth p") auto
  then show ?thesis
    by (simp add: layers_sorted_init layers_sorted_foldl add_layer_lookup add_layer_present_depths
        remove_layer_error_iff)
qed

text \<open>C8 on a new profile: two insertions and a removal, an overwrite, a missing depth.\<close>

theorem layer_mutations_keep_order_witness:
  "layers_sorted SoilProfile_init
   \<and> layers_sorted (foldl apply_layer_op SoilProfile_init
        (take 3 [AddLayer 5 soil_b, AddLayer 2 soil_a, RemoveLayer 0]))
   \<and> depths (foldl apply_layer_op SoilProfile_init
        (take 3 [AddLayer 5 soil_b, AddLayer 2 soil_a, RemoveLayer 0])) = [2, 5]
   \<and> (0::real) \<in> set (depths SoilProfile_init)
   \<and> map_of (layers (add_layer 0 soil_a SoilProfile_init)) 0 = Some soil_a
   \<and> depths (add_layer 0 soil_a SoilProfile_init) = depths SoilProfile_init
   \<and> remove_layer 7 SoilProfile_init = Inl KeyError"
proof -
  have d: "depths (foldl apply_layer_op SoilProfile_init
        (take 3 [AddLayer 5 soil_b, AddLayer 2 soil_a, RemoveLayer 0])) = [2, 5]"
    by (simp add: depths_def add_layer_def sort_layers_def remove_layer_def SoilProfile_init_def)
  have i: "(0::real) \<in> set (depths SoilProfile_init)"
    by (simp add: depths_def SoilProfile_init_def)
  have r: "(7::real) \<notin> set (depths SoilProfile_init)"
    by (simp add: depths_def SoilProfile_init_def)
  show ?thesis
    using d i r
      layer_mutations_keep_order [of SoilProfile_init 3
        "[AddLayer 5 soil_b, AddLayer 2 soil_a, RemoveLayer 0]" 0 soil_a]
      layer_mutations_keep_order [of SoilProfile_init 0 "[]" 7 soil_a]
    by simp
qed


section \<open>Further properties of the setters and of the aggregator\<close>

text \<open>
  When \<^verbatim>\<open>e_max\<close>, \<^verbatim>\<open>relative_density\<close> and \<^verbatim>\<open>e_min\<close> are all set, the setter of
  \<^verbatim>\<open>e_curr\<close> only checks: it returns normally or raises \<^verbatim>\<open>ModelError\<close>, and in both
  cases the object is left as it was.
\<close>

theorem e_curr_setter_checked:
  assumes "e_max s = Some emax" and "relative_density s = Some rd" and "e_min s = Some emin"
  shows "e_curr_setter v s = (None, s)
       \<or> e_curr_setter v s =
           (Some (ModelError ''New void ratio inconsistent with relative_density''), s)"
  using assms by (auto simp: e_curr_setter_def)

text \<open>
  The Soil with \<^verbatim>\<open>e_max = 1\<close>, \<^verbatim>\<open>e_min = relative_density = 0.5\<close> rejects \<^verbatim>\<open>e_curr = 2\<close>
  and is unchanged.
\<close>

theorem e_curr_setter_checked_witness:
  "e_max soil_with_density = Some 1 \<and> relative_density soil_with_density = Some (1/2)
   \<and> e_min soil_with_density = Some (1/2)
   \<and> fst (e_curr_setter (Some 2) soil_with_density) \<noteq> None
   \<and> e_curr_setter (Some 2) soil_with_density =
       (Some (ModelError ''New void ratio inconsistent with relative_density''), soil_with_density)"
proof -
  have a: "e_max soil_with_density = Some 1"
    and b: "relative_density soil_with_density = Some (1/2)"
    and c: "e_min soil_with_density = Some (1/2)"
    by (simp_all add: soil_with_density_eq)
  have d: "fst (e_curr_setter (Some 2) soil_with_density) \<noteq> None"
    by (simp add: soil_with_density_eq e_curr_setter_def)
  show ?thesis
    using a b c d e_curr_setter_checked [OF a b c, of "Some 2"] by auto
qed

text \<open>
  When the object has an attribute \<^verbatim>\<open>id\<close> and its value is \<^verbatim>\<open>None\<close>,
  \<^verbatim>\<open>Output.add_to_dict\<close> raises the \<^verbatim>\<open>ModelError\<close> of the missing id.
\<close>

theorem add_to_dict_id_none:
  assumes "getattr an_object ''id'' = Inr None"
  shows "add_to_dict out an_object =
           Inl (ModelError ''id must be set on object before adding to output.'')"
  using assms by (simp add: add_to_dict_def)

text \<open>A Soil on which \<^verbatim>\<open>id = None\<close> was assigned.\<close>

theorem add_to_dict_id_none_witness:
  "getattr (snd (setattr Soil_init ''id'' None)) ''id'' = Inr None
   \<and> add_to_dict Output_init (snd (setattr Soil_init ''id'' None)) =
       Inl (ModelError ''id must be set on object before adding to output.'')"
proof -
  have a: "getattr (snd (setattr Soil_init ''id'' None)) ''id'' = Inr None"
    by (simp add: setattr_def getattr_def read_only_def Soil_init_def)
  show ?thesis
    using a add_to_dict_id_none [OF a, of Output_init] by simp
qed

lemma e_curr_setter_raises: "fst (e_curr_setter v s) \<noteq> None \<Longrightarrow> snd (e_curr_setter v s) = s"
  by (auto simp: e_curr_setter_def split: option.splits if_splits)

text \<open>
  What a failed assignment leaves behind: when the setter of \<^verbatim>\<open>unit_dry_weight\<close> raises,
  or the setter of \<^verbatim>\<open>specific_gravity\<close> raises on a Soil whose \<^verbatim>\<open>unit_dry_weight\<close> is
  set (both without \<^verbatim>\<open>override\<close>), the object is the one before the assignment with the
  assigned slot holding the new value; the peers are unchanged.
\<close>

theorem failed_setter_state:
  "(fst (unit_dry_weight_setter v False s) \<noteq> None \<longrightarrow>
      snd (unit_dry_weight_setter v False s) = s\<lparr>unit_dry_weight := v\<rparr>)
   \<and> (unit_dry_weight s \<noteq> None \<and> fst (specific_gravity_setter v False s) \<noteq> None \<longrightarrow>
      snd (specific_gravity_setter v False s) = s\<lparr>specific_gravity := v\<rparr>)"
proof -
  have 1: "snd (unit_dry_weight_setter v False s) = s\<lparr>unit_dry_weight := v\<rparr>"
    if "fst (unit_dry_weight_setter v False s) \<noteq> None"
    using that e_curr_setter_raises
    by (auto simp: unit_dry_weight_setter_def Let_def split: option.splits if_splits)
  have 2: "snd (specific_gravity_setter v False s) = s\<lparr>specific_gravity := v\<rparr>"
    if "unit_dry_weight s \<noteq> None" and "fst (specific_gravity_setter v False s) \<noteq> None"
    using that
    by (auto simp: specific_gravity_setter_def Let_def split: option.splits if_splits)
  show ?thesis using 1 2 by blast
qed

text \<open>The two failing assignments on the Soil with \<^verbatim>\<open>e_curr = 0.5\<close>.\<close>

theorem failed_setter_state_witness:
  "fst (unit_dry_weight_setter (Some 2000) False soil_with_void_ratio) \<noteq> None
   \<and> snd (unit_dry_weight_setter (Some 2000) False soil_with_void_ratio)
       = soil_with_void_ratio\<lparr>unit_dry_weight := Some 2000\<rparr>
   \<and> unit_dry_weight soil_with_void_ratio \<noteq> None
   \<and> fst (specific_gravity_setter (Some 2) False soil_with_void_ratio) \<noteq> None
   \<and> snd (specific_gravity_setter (Some 2) False soil_with_void_ratio)
       = soil_with_void_ratio\<lparr>specific_gravity := Some 2\<rparr>"
proof -
  have a: "fst (unit_dry_weight_setter (Some 2000) False soil_with_void_ratio) \<noteq> None"
    by (simp add: soil_with_void_ratio_eq unit_dry_weight_setter_def Soil_init_def pw_def Let_def)
  have b: "fst (specific_gravity_setter (Some 2) False soil_with_void_ratio) \<noteq> None"
    by (simp add: soil_with_void_ratio_eq specific_gravity_setter_def Soil_init_def pw_def Let_def)
  have c: "unit_dry_weight soil_with_void_ratio \<noteq> None"
    by (simp add: soil_with_void_ratio_eq)
  show ?thesis
    using a b c failed_setter_state [of "Some 2000" soil_with_void_ratio]
      failed_setter_state [of "Some 2" soil_with_void_ratio]
    by blast
qed

end
